theory Spec2Isabelle
  imports Main "HOL-Library.Word"
begin

section \<open>MusicBrainz Artist Credits Helper: strings and the join phrase pattern\<close>

text \<open>
  A JavaScript string is a sequence of UTF-16 code units. The userscript compares and
  slices strings by code unit (the pattern has no \<^verbatim>\<open>u\<close> flag), so the model keeps
  code units as 16-bit words. \<open>js\<close> embeds an Isabelle string literal (characters
  0 to 255, which are the same code points in UTF-16).
\<close>

type_synonym code_unit = "16 word"
type_synonym jsstring = "code_unit list"

definition js :: "string \<Rightarrow> jsstring" where
  "js s = map (\<lambda>c. word_of_nat (of_char c)) s"

text \<open>\<^verbatim>\<open>S.substring(p, q)\<close> for \<open>p \<le> q\<close>, as the split algorithm takes it.\<close>

definition slice :: "jsstring \<Rightarrow> nat \<Rightarrow> nat \<Rightarrow> jsstring" where
  "slice S p q = take (q - p) (drop p S)"

subsection \<open>The pattern language used by \<^verbatim>\<open>JOIN_PHRASE_PATTERN\<close>\<close>

text \<open>
  The pattern (source lines 27 to 28) is built from single-code-unit atoms (pattern
  characters, classes and \<^verbatim>\<open>\s\<close>), the greedy quantifiers \<^verbatim>\<open>*\<close> and \<^verbatim>\<open>?\<close> applied
  to such atoms, sequencing and alternation. It has no capture group, no assertion and no
  back reference, so a match at a position depends only on the text from that position on.

  \<open>rmatch r s\<close> lists, in the order in which a backtracking matcher tries them, the
  texts that remain after \<open>r\<close> has matched a prefix of \<open>s\<close>. The head of the list is the
  match that ECMAScript reports: a greedy quantifier tries the longer match first, an
  alternation tries its left branch first.
\<close>

datatype regex =
    Empty
  | Atom "code_unit \<Rightarrow> bool"
  | AtomStar "code_unit \<Rightarrow> bool"
  | AtomOpt "code_unit \<Rightarrow> bool"
  | Seq regex regex
  | Alt regex regex

fun star_matches :: "(code_unit \<Rightarrow> bool) \<Rightarrow> jsstring \<Rightarrow> jsstring list" where
  "star_matches P [] = [[]]"
| "star_matches P (c # cs) = (if P c then star_matches P cs else []) @ [c # cs]"

primrec rmatch :: "regex \<Rightarrow> jsstring \<Rightarrow> jsstring list" where
  "rmatch Empty s = [s]"
| "rmatch (Atom P) s = (case s of [] \<Rightarrow> [] | c # cs \<Rightarrow> if P c then [cs] else [])"
| "rmatch (AtomStar P) s = star_matches P s"
| "rmatch (AtomOpt P) s = (case s of [] \<Rightarrow> [] | c # cs \<Rightarrow> if P c then [cs] else []) @ [s]"
| "rmatch (Seq a b) s = concat (map (rmatch b) (rmatch a s))"
| "rmatch (Alt a b) s = rmatch a s @ rmatch b s"

text \<open>
  The pattern carries the \<^verbatim>\<open>i\<close> flag without \<^verbatim>\<open>u\<close>. A code unit then matches a
  pattern character when both have the same canonical form, which is the upper case
  mapping except that a code unit of 128 or more never maps below 128. For the
  characters of this pattern (ASCII letters, ASCII and full-width punctuation, white
  space) that is: equal after mapping \<^verbatim>\<open>a-z\<close> to \<^verbatim>\<open>A-Z\<close>. \<open>is_space\<close> is the class
  \<^verbatim>\<open>\s\<close>: the white space and line terminator code points of ECMAScript.
\<close>

definition upper_ascii :: "code_unit \<Rightarrow> code_unit" where
  "upper_ascii c = (if 97 \<le> c \<and> c \<le> 122 then c - 32 else c)"

definition is_space :: "code_unit \<Rightarrow> bool" where
  "is_space c \<longleftrightarrow> c \<in> set [9, 10, 11, 12, 13, 32, 160, 5760, 8192, 8193, 8194, 8195, 8196, 8197,
      8198, 8199, 8200, 8201, 8202, 8232, 8233, 8239, 8287, 12288, 65279]"

definition one_of :: "code_unit list \<Rightarrow> code_unit \<Rightarrow> bool" where
  "one_of ps c \<longleftrightarrow> upper_ascii c \<in> set (map upper_ascii ps)"

fun lit :: "jsstring \<Rightarrow> regex" where
  "lit [] = Empty"
| "lit [p] = Atom (one_of [p])"
| "lit (p # ps) = Seq (Atom (one_of [p])) (lit ps)"

text \<open>
  \<^verbatim>\<open>/\s*(?:[\(\uFF08]CV[\.:\uFF1A ]?|[\)\uFF09]\s*[,\uFF0C\u3001\u30FB]?|\s(?:featuring|feat|ft|vs)[\.\s]|,|\uFF0C|\u3001|&|\u30FB)\s*/gi\<close>,
  with the non-ASCII characters of the source written as escapes: 65288 and 65289 are
  the full-width parentheses, 65306 the full-width colon, 65292 the full-width comma,
  12289 the ideographic comma and 12539 the katakana middle dot.
\<close>

definition JOIN_PHRASE_PATTERN :: regex where
  "JOIN_PHRASE_PATTERN =
     Seq (AtomStar is_space)
    (Seq (Alt (Seq (Atom (one_of [40, 65288])) (Seq (lit (js ''CV'')) (AtomOpt (one_of [46, 58, 65306, 32]))))
         (Alt (Seq (Atom (one_of [41, 65289])) (Seq (AtomStar is_space) (AtomOpt (one_of [44, 65292, 12289, 12539]))))
         (Alt (Seq (Atom is_space)
                (Seq (Alt (lit (js ''featuring'')) (Alt (lit (js ''feat'')) (Alt (lit (js ''ft'')) (lit (js ''vs'')))))
                     (Atom (\<lambda>c. one_of [46] c \<or> is_space c))))
         (Alt (lit [44]) (Alt (lit [65292]) (Alt (lit [12289]) (Alt (lit [38]) (lit [12539]))))))))
         (AtomStar is_space))"

subsection \<open>\<^verbatim>\<open>matchAll\<close> and \<^verbatim>\<open>split\<close>\<close>

text \<open>
  \<open>matcher r S i\<close> is the pattern's matcher run on \<open>S\<close> at index \<open>i\<close>: the end index
  of the match, or \<open>None\<close> on failure.
\<close>

definition matcher :: "regex \<Rightarrow> jsstring \<Rightarrow> nat \<Rightarrow> nat option" where
  "matcher r S i = (case rmatch r (drop i S) of [] \<Rightarrow> None | rest # _ \<Rightarrow> Some (length S - length rest))"

lemma star_matches_length: "t \<in> set (star_matches P s) \<Longrightarrow> length t \<le> length s"
  by (induction P s rule: star_matches.induct) (auto split: if_splits)

lemma rmatch_length: "t \<in> set (rmatch r s) \<Longrightarrow> length t \<le> length s"
proof (induction r arbitrary: s t)
  case (AtomStar P)
  then show ?case by (simp add: star_matches_length)
next
  case (Seq a b)
  then obtain u where "u \<in> set (rmatch a s)" "t \<in> set (rmatch b u)" by auto
  with Seq.IH show ?case using le_trans by blast
qed (auto split: list.splits if_splits)

lemma matcher_bounds:
  assumes "matcher r S i = Some e" "i \<le> length S"
  shows "i \<le> e \<and> e \<le> length S"
proof -
  from assms(1) obtain rest rs where rs: "rmatch r (drop i S) = rest # rs" and e: "e = length S - length rest"
    by (auto simp: matcher_def split: list.splits)
  then have "length rest \<le> length (drop i S)" using rmatch_length [of rest r "drop i S"] by simp
  with e assms(2) show ?thesis by auto
qed

text \<open>
  The search loop of \<^verbatim>\<open>RegExp.prototype.exec\<close> for a global pattern: starting at
  \<open>lastIndex = i\<close>, fail once \<open>i\<close> exceeds the length, otherwise try the matcher at \<open>i\<close>
  and advance by one code unit on failure. The result is the start and end index.
\<close>

function exec_from :: "regex \<Rightarrow> jsstring \<Rightarrow> nat \<Rightarrow> (nat \<times> nat) option" where
  "exec_from r S i =
     (if i > length S then None
      else case matcher r S i of
             None \<Rightarrow> exec_from r S (i + 1)
           | Some e \<Rightarrow> Some (i, e))"
  by pat_completeness auto
termination
  by (relation "measure (\<lambda>(r, S, i). length S + 1 - i)") auto

declare exec_from.simps [simp del]

lemma exec_from_bounds:
  "exec_from r S i = Some (j, e) \<Longrightarrow> i \<le> j \<and> j \<le> e \<and> e \<le> length S"
proof (induction r S i rule: exec_from.induct)
  case (1 r S i)
  from "1.prems" have le: "i \<le> length S"
    by (subst (asm) exec_from.simps) (simp split: if_splits)
  show ?case
  proof (cases "matcher r S i")
    case None
    with "1.prems" le have "exec_from r S (i + 1) = Some (j, e)"
      by (subst (asm) exec_from.simps) simp
    with "1.IH" None le show ?thesis by fastforce
  next
    case (Some e')
    with "1.prems" le have "j = i" "e = e'"
      by (subst (asm) exec_from.simps, simp)+
    with Some le show ?thesis using matcher_bounds [of r S i e'] by simp
  qed
qed

text \<open>
  The iterator returned by \<^verbatim>\<open>str.matchAll(pattern)\<close>, as the list of the values it
  yields (pairs of \<^verbatim>\<open>match.index\<close> and \<^verbatim>\<open>match[0]\<close>). After an empty match the
  iterator advances \<open>lastIndex\<close> by one.
\<close>

function matchAll_from :: "regex \<Rightarrow> jsstring \<Rightarrow> nat \<Rightarrow> (nat \<times> jsstring) list" where
  "matchAll_from r S lastIndex =
     (case exec_from r S lastIndex of
        None \<Rightarrow> []
      | Some (i, e) \<Rightarrow> (i, slice S i e) # matchAll_from r S (if e = i then e + 1 else e))"
  by pat_completeness auto
termination
proof (relation "measure (\<lambda>(r, S, i). length S + 1 - i)", goal_cases)
  case 1
  show ?case by simp
next
  case (2 r S lastIndex x i e)
  then have "lastIndex \<le> i \<and> i \<le> e \<and> e \<le> length S"
    using exec_from_bounds [of r S lastIndex i e] by simp
  then show ?case by auto
qed

declare matchAll_from.simps [simp del]

text \<open>
  The loop of \<^verbatim>\<open>RegExp.prototype[Symbol.split]\<close> without a limit: \<open>p\<close> is the end of the
  previous separator, \<open>q\<close> the position at which the sticky matcher is tried next. A
  match that ends at \<open>p\<close> is skipped; otherwise the text between \<open>p\<close> and \<open>q\<close> is
  emitted. When \<open>q\<close> reaches the end, the remaining text is emitted, also when empty.
\<close>

function split_loop :: "regex \<Rightarrow> jsstring \<Rightarrow> nat \<Rightarrow> nat \<Rightarrow> jsstring list" where
  "split_loop r S p q =
     (if q < length S then
        (case matcher r S q of
           None \<Rightarrow> split_loop r S p (q + 1)
         | Some e' \<Rightarrow>
             (let e = min e' (length S) in
              if e = p then split_loop r S p (q + 1)
              else slice S p q # split_loop r S e e))
      else [slice S p (length S)])"
  by pat_completeness auto
termination
proof (relation "measures [\<lambda>(r, S, p, q). length S - q, \<lambda>(r, S, p, q). if p = q then 0 else 1]", goal_cases)
  case 1
  show ?case by simp
next
  case (2 r S p q)
  then show ?case by auto
next
  case (3 r S p q e' e)
  then show ?case by auto
next
  case (4 r S p q e' e)
  then have "q \<le> e' \<and> e' \<le> length S" using matcher_bounds [of r S q e'] by simp
  with 4 show ?case by auto
qed

declare split_loop.simps [simp del]

text \<open>
  \<^verbatim>\<open>S.split(pattern)\<close>: on the empty string the result is empty when the pattern
  matches it and the string itself otherwise; on any other string it is the loop from
  \<open>p = q = 0\<close>.
\<close>

definition split_js :: "regex \<Rightarrow> jsstring \<Rightarrow> jsstring list" where
  "split_js r S =
     (if S = [] then (case matcher r S 0 of None \<Rightarrow> [S] | Some _ \<Rightarrow> [])
      else split_loop r S 0 0)"

text \<open>
  Both \<^verbatim>\<open>matchAll\<close> and \<^verbatim>\<open>split\<close> work on a copy of the pattern object, so the
  shared object's \<open>lastIndex\<close> stays 0 and every call starts at index 0.
\<close>

definition matchAll :: "regex \<Rightarrow> jsstring \<Rightarrow> (nat \<times> jsstring) list" where
  "matchAll r S = matchAll_from r S 0"

subsection \<open>\<^verbatim>\<open>parseArtistCreditsString\<close> (source lines 320 to 349)\<close>

text \<open>
  The type \<^verbatim>\<open>ArtistCredit\<close> (source lines 67 to 72): \<open>artist\<close> is required, the
  other two fields may be absent.
\<close>

record credit =
  artist :: jsstring
  creditedAs :: "jsstring option"
  joinPhrase :: "jsstring option"

text \<open>
  The \<^verbatim>\<open>for (const artist of artists)\<close> loop. Each iteration advances \<open>pos\<close> by the
  artist's length and takes the next value of the \<open>matches\<close> iterator, whether or not
  it is then recorded; an exhausted iterator stays exhausted.
\<close>

fun credits_loop :: "jsstring list \<Rightarrow> (nat \<times> jsstring) list \<Rightarrow> nat \<Rightarrow> credit list" where
  "credits_loop [] matches pos = []"
| "credits_loop (a # artists) matches pos =
     (let pos1 = pos + length a in
      case matches of
        [] \<Rightarrow> \<lparr>artist = a, creditedAs = None, joinPhrase = None\<rparr> # credits_loop artists [] pos1
      | (index, text) # rest \<Rightarrow>
          if index = pos1
          then \<lparr>artist = a, creditedAs = None, joinPhrase = Some text\<rparr>
                 # credits_loop artists rest (pos1 + length text)
          else \<lparr>artist = a, creditedAs = None, joinPhrase = None\<rparr>
                 # credits_loop artists rest pos1)"

definition parseArtistCreditsString :: "jsstring \<Rightarrow> credit list" where
  "parseArtistCreditsString str =
     (if str = [] then []
      else
        let matches = matchAll JOIN_PHRASE_PATTERN str;
            artists = split_js JOIN_PHRASE_PATTERN str;
            credits = credits_loop artists matches 0
        in case credits of
             [] \<Rightarrow> []
           | c # cs \<Rightarrow> c\<lparr>creditedAs := Some (artist c)\<rparr> # cs)"

text \<open>
  The text a credit stands for: its artist followed by its join phrase, if any.
\<close>

definition credit_text :: "credit \<Rightarrow> jsstring" where
  "credit_text c = artist c @ (case joinPhrase c of None \<Rightarrow> [] | Some j \<Rightarrow> j)"

text \<open>
  \<open>entity_end pos0 cs k\<close> is the value of \<open>pos\<close> after the loop has added the length of
  the \<open>k\<close>-th artist: the start position, plus the lengths of all earlier artists and
  recorded join phrases, plus the length of the \<open>k\<close>-th artist.
\<close>

definition entity_end :: "nat \<Rightarrow> credit list \<Rightarrow> nat \<Rightarrow> nat" where
  "entity_end pos0 cs k = pos0 + length (concat (map credit_text (take k cs))) + length (artist (cs ! k))"

text \<open>The final step of the parser: \<^verbatim>\<open>credits[0].creditedAs = credits[0].artist\<close>.\<close>

definition first_creditedAs :: "credit list \<Rightarrow> credit list" where
  "first_creditedAs credits = (case credits of [] \<Rightarrow> [] | c # cs \<Rightarrow> c\<lparr>creditedAs := Some (artist c)\<rparr> # cs)"

text \<open>
  A pattern every match of which consumes at least one code unit (a sufficient syntactic
  condition).
\<close>

primrec consumes :: "regex \<Rightarrow> bool" where
  "consumes Empty = False"
| "consumes (Atom P) = True"
| "consumes (AtomStar P) = False"
| "consumes (AtomOpt P) = False"
| "consumes (Seq a b) = (consumes a \<or> consumes b)"
| "consumes (Alt a b) = (consumes a \<and> consumes b)"

section \<open>The artist credits editor\<close>

text \<open>
  The editor works on the text inputs of the artist credit bubble. Of an input element the
  script reads and writes \<^verbatim>\<open>value\<close> and reads \<^verbatim>\<open>disabled\<close>.
\<close>

record input_el =
  el_value :: jsstring
  el_disabled :: bool

text \<open>
  A link of the bubble's preview row, as \<^verbatim>\<open>getCharacterMBID\<close> reads it: whether its parent
  has the class \<^verbatim>\<open>name-variation\<close>, its \<^verbatim>\<open>title\<close>, the inner text of its \<^verbatim>\<open>bdi\<close>
  child and its \<^verbatim>\<open>href\<close>.
\<close>

record link =
  name_variation :: bool
  title :: jsstring
  bdi_innerText :: jsstring
  href :: jsstring

text \<open>
  The state the script observes and changes: \<open>text_inputs\<close> is
  \<^verbatim>\<open>bubble.querySelectorAll("input[type=text]")\<close> in document order, \<open>preview\<close> the links
  of the preview row, \<open>add_clicks\<close> the number of clicks on the add button so far,
  \<open>dispatched\<close> the number of \<^verbatim>\<open>input\<close> events dispatched by \<open>setInputValue\<close>, and
  \<open>alerts\<close> the messages shown with \<^verbatim>\<open>alert\<close>, oldest first.
\<close>

record ui =
  text_inputs :: "input_el list"
  preview :: "link list"
  add_clicks :: nat
  dispatched :: nat
  alerts :: "string list"

text \<open>
  An exception is a value: \<open>Inl (e, u)\<close> is the exception \<open>e\<close> thrown in state \<open>u\<close> (the
  writes made before the throw persist), \<open>Inr u\<close> is normal completion.
\<close>

datatype error = TypeError

type_synonym outcome = "(error \<times> ui) + ui"

definition outcome_state :: "outcome \<Rightarrow> ui" where
  "outcome_state r = (case r of Inl (e, u) \<Rightarrow> u | Inr u \<Rightarrow> u)"

text \<open>
  Array reads: \<^verbatim>\<open>xs[i]\<close> is \<^verbatim>\<open>undefined\<close> out of range, \<^verbatim>\<open>xs.slice(start)\<close> and
  \<^verbatim>\<open>xs.at(index)\<close> count a negative argument from the end.
\<close>

definition nth_opt :: "'a list \<Rightarrow> nat \<Rightarrow> 'a option" where
  "nth_opt xs i = (if i < length xs then Some (xs ! i) else None)"

definition js_slice :: "int \<Rightarrow> 'a list \<Rightarrow> 'a list" where
  "js_slice start xs =
     (let len = int (length xs);
          k = (if start < 0 then max (len + start) 0 else min start len)
      in drop (nat k) xs)"

definition js_at :: "'a list \<Rightarrow> int \<Rightarrow> 'a option" where
  "js_at xs index =
     (let len = int (length xs);
          k = (if index \<ge> 0 then index else len + index)
      in if k < 0 \<or> k \<ge> len then None else Some (xs ! nat k))"

text \<open>
  \<^verbatim>\<open>setInputValue\<close> (source lines 54 to 65). An element is referred to by its index in
  \<open>text_inputs\<close>; \<open>None\<close> is \<^verbatim>\<open>undefined\<close>. An index beyond the list stands for an
  element that is no longer in the bubble: writing it changes nothing the editor sees.
\<close>

definition setInputValue :: "nat option \<Rightarrow> jsstring \<Rightarrow> ui \<Rightarrow> ui" where
  "setInputValue input v u =
     (case input of
        None \<Rightarrow> u
      | Some i \<Rightarrow>
          if i \<ge> length (text_inputs u) \<or> el_disabled (text_inputs u ! i) then u
          else u\<lparr>text_inputs := (text_inputs u)[i := (text_inputs u ! i)\<lparr>el_value := v\<rparr>],
                 dispatched := dispatched u + 1\<rparr>)"

text \<open>
  \<^verbatim>\<open>ArtistCreditInputs\<close> (source lines 74 to 79) and \<^verbatim>\<open>getInputs\<close> (lines 95 to 109):
  the inputs are cut into groups of three; the last group is shorter when the number of
  inputs is not a multiple of three, and its missing fields are \<^verbatim>\<open>undefined\<close>.
\<close>

record ArtistCreditInputs =
  artist_el :: "nat option"
  creditedAs_el :: "nat option"
  joinPhrase_el :: "nat option"

definition getInputs :: "int \<Rightarrow> ui \<Rightarrow> ArtistCreditInputs list" where
  "getInputs sliceIndex u =
     (let els = [0 ..< length (text_inputs u)];
          SIZE = 3;
          groups = map (\<lambda>i. take SIZE (drop (i * SIZE) els)) [0 ..< (length els + SIZE - 1) div SIZE]
      in map (\<lambda>input. \<lparr>artist_el = nth_opt input 0, creditedAs_el = nth_opt input 1,
                        joinPhrase_el = nth_opt input 2\<rparr>)
           (js_slice sliceIndex groups))"

text \<open>
  \<^verbatim>\<open>updateInputs\<close> (source lines 165 to 172). The loop \<^verbatim>\<open>for (const key in newCredit)\<close>
  visits the keys the credit has; an absent key and a key with a falsy value are both
  skipped, so \<open>None\<close> stands for an absent, \<^verbatim>\<open>undefined\<close> or \<^verbatim>\<open>null\<close> field and
  \<open>truthy\<close> holds of a non-empty string. The keys of one credit address different
  elements, so the order in which they are visited does not show in the state.
  Reading \<^verbatim>\<open>inputs[key]\<close> throws a \<^verbatim>\<open>TypeError\<close> when \<^verbatim>\<open>inputs\<close> is \<^verbatim>\<open>undefined\<close>.
\<close>

datatype key = Artist | CreditedAs | JoinPhrase

definition entries :: "credit \<Rightarrow> (key \<times> jsstring option) list" where
  "entries c = [(Artist, Some (artist c)), (CreditedAs, creditedAs c), (JoinPhrase, joinPhrase c)]"

definition field_el :: "ArtistCreditInputs \<Rightarrow> key \<Rightarrow> nat option" where
  "field_el g k = (case k of Artist \<Rightarrow> artist_el g | CreditedAs \<Rightarrow> creditedAs_el g | JoinPhrase \<Rightarrow> joinPhrase_el g)"

definition truthy :: "jsstring option \<Rightarrow> bool" where
  "truthy v = (case v of None \<Rightarrow> False | Some s \<Rightarrow> s \<noteq> [])"

fun updateInputs_loop :: "ArtistCreditInputs option \<Rightarrow> (key \<times> jsstring option) list \<Rightarrow> ui \<Rightarrow> outcome" where
  "updateInputs_loop inputs [] u = Inr u"
| "updateInputs_loop inputs ((k, v) # rest) u =
     (if truthy v then
        (case inputs of
           None \<Rightarrow> Inl (TypeError, u)
         | Some g \<Rightarrow> updateInputs_loop inputs rest (setInputValue (field_el g k) (the v) u))
      else updateInputs_loop inputs rest u)"

definition updateInputs :: "ArtistCreditInputs option \<Rightarrow> credit \<Rightarrow> ui \<Rightarrow> outcome" where
  "updateInputs inputs newCredit u = updateInputs_loop inputs (entries newCredit) u"

text \<open>
  \<^verbatim>\<open>update\<close> (source lines 148 to 158). Building \<^verbatim>\<open>oldCredit\<close> reads
  \<^verbatim>\<open>value.value\<close> of all three fields of the group and throws when one is missing.
\<close>

definition update :: "int \<Rightarrow> (credit \<Rightarrow> credit) \<Rightarrow> ui \<Rightarrow> outcome" where
  "update index updater u =
     (case js_at (getInputs 0 u) index of
        None \<Rightarrow> Inr u
      | Some g \<Rightarrow>
          (case (artist_el g, creditedAs_el g, joinPhrase_el g) of
             (Some a, Some c, Some j) \<Rightarrow>
               let oldCredit = \<lparr>artist = el_value (text_inputs u ! a),
                                creditedAs = Some (el_value (text_inputs u ! c)),
                                joinPhrase = Some (el_value (text_inputs u ! j))\<rparr>;
                   newCredit = updater oldCredit
               in updateInputs (Some g) newCredit u
           | _ \<Rightarrow> Inl (TypeError, u)))"

text \<open>
  Timers. \<^verbatim>\<open>fill\<close> (source lines 115 to 129) and \<^verbatim>\<open>append\<close> (lines 135 to 141) defer
  work with \<^verbatim>\<open>setTimeout\<close>; a task is what a callback does, and the timers run in order
  of delay, those of equal delay in order of registration. An exception in a callback is
  reported and does not stop later timers. The page's reaction to a click on the add
  button is not part of the script: \<open>host\<close> stands for what the page has done to the text
  inputs by the time the script's next callback runs (the identity when the page has
  not rendered the new slot yet). The model is of one script run at a time: nothing else
  edits the bubble between a call and its timers, and the bubble has its add button and
  its preview row.
\<close>

type_synonym host = "input_el list \<Rightarrow> input_el list"

datatype task = ClickAdd | FillWrite "credit list" | AppendWrite credit

definition click :: "host \<Rightarrow> ui \<Rightarrow> ui" where
  "click h u = u\<lparr>text_inputs := h (text_inputs u), add_clicks := add_clicks u + 1\<rparr>"

fun forEach_updateInputs :: "ArtistCreditInputs list \<Rightarrow> credit list \<Rightarrow> nat \<Rightarrow> ui \<Rightarrow> outcome" where
  "forEach_updateInputs inputs [] index u = Inr u"
| "forEach_updateInputs inputs (credit # rest) index u =
     (case updateInputs (nth_opt inputs index) credit u of
        Inl e \<Rightarrow> Inl e
      | Inr u' \<Rightarrow> forEach_updateInputs inputs rest (index + 1) u')"

definition run_task :: "host \<Rightarrow> task \<Rightarrow> ui \<Rightarrow> outcome" where
  "run_task h t u =
     (case t of
        ClickAdd \<Rightarrow> Inr (click h u)
      | FillWrite credits \<Rightarrow> forEach_updateInputs (getInputs 0 u) credits 0 u
      | AppendWrite credit \<Rightarrow> updateInputs (nth_opt (getInputs (-1) u) 0) credit u)"

fun run_tasks :: "host \<Rightarrow> task list \<Rightarrow> ui \<Rightarrow> error list \<times> ui" where
  "run_tasks h [] u = ([], u)"
| "run_tasks h (t # ts) u =
     (case run_task h t u of
        Inr u' \<Rightarrow> run_tasks h ts u'
      | Inl (e, u') \<Rightarrow> (case run_tasks h ts u' of (es, u'') \<Rightarrow> (e # es, u'')))"

definition run_timers :: "host \<Rightarrow> (nat \<times> task) list \<Rightarrow> ui \<Rightarrow> error list \<times> ui" where
  "run_timers h timers u = run_tasks h (map snd (sort_key fst timers)) u"

definition fill_timers :: "credit list \<Rightarrow> ui \<Rightarrow> (nat \<times> task) list" where
  "fill_timers credits u =
     (let inputs = getInputs 0 u in
      (if length inputs < length credits
       then replicate (length credits - length inputs) (10, ClickAdd) else [])
      @ [(30, FillWrite credits)])"

definition fill :: "host \<Rightarrow> credit list \<Rightarrow> ui \<Rightarrow> error list \<times> ui" where
  "fill h credits u = run_timers h (fill_timers credits u) u"

definition append_credit :: "host \<Rightarrow> credit \<Rightarrow> ui \<Rightarrow> error list \<times> ui" where
  "append_credit h credit u = run_timers h [(10, AppendWrite credit)] (click h u)"


text \<open>
  \<^verbatim>\<open>getCharacterMBID\<close> (source lines 205 to 225). \<open>split_str sep [] s\<close> is
  \<^verbatim>\<open>s.split(sep)\<close> for a non-empty string \<open>sep\<close>, \<open>trim\<close> is \<^verbatim>\<open>String.prototype.trim\<close>.
  The separator of the title is a space, an en dash (code unit 8211) and a space.
\<close>

fun split_str :: "jsstring \<Rightarrow> jsstring \<Rightarrow> jsstring \<Rightarrow> jsstring list" where
  "split_str sep acc [] = [rev acc]"
| "split_str sep acc (c # cs) =
     (if sep \<noteq> [] \<and> take (length sep) (c # cs) = sep
      then rev acc # split_str sep [] (drop (length sep - 1) cs)
      else split_str sep (c # acc) cs)"

definition trim :: "jsstring \<Rightarrow> jsstring" where
  "trim s = rev (dropWhile is_space (rev (dropWhile is_space s)))"

definition link_name :: "link \<Rightarrow> jsstring" where
  "link_name l =
     (if name_variation l
      then trim (case split_str [32, 8211, 32] [] (title l) of [] \<Rightarrow> [] | x # _ \<Rightarrow> x)
      else trim (bdi_innerText l))"

definition link_gid :: "link \<Rightarrow> jsstring option" where
  "link_gid l = nth_opt (split_str (js ''/artist/'') [] (href l)) 1"

definition alert :: "string \<Rightarrow> ui \<Rightarrow> ui" where
  "alert msg u = u\<lparr>alerts := alerts u @ [msg]\<rparr>"

definition getCharacterMBID :: "jsstring \<Rightarrow> ui \<Rightarrow> jsstring option \<times> ui" where
  "getCharacterMBID characterName u =
     (case find (\<lambda>l. link_name l = characterName) (preview u) of
        None \<Rightarrow> (None, alert ''Character not found in preview text.'' u)
      | Some l \<Rightarrow>
          (case link_gid l of
             None \<Rightarrow> (None, alert ''Character not found in preview text.'' u)
           | Some gid \<Rightarrow> (Some gid, u)))"

text \<open>
  \<^verbatim>\<open>getVoiceActor\<close> (source lines 182 to 198). \<open>service\<close> maps an artist identifier to
  the \<^verbatim>\<open>relations\<close> of the web service's answer; the request itself is assumed to succeed.
\<close>

record relation =
  type_id :: jsstring
  direction :: jsstring
  ended :: bool
  artist_id :: jsstring

type_synonym service = "jsstring \<Rightarrow> relation list"

definition RELATIONSHIP_ID :: jsstring where
  "RELATIONSHIP_ID = js ''e259a3f5-ce8e-45c1-9ef7-90ff7d0c7589''"

definition voice_actor_relation :: "relation \<Rightarrow> bool" where
  "voice_actor_relation r \<longleftrightarrow>
     type_id r = RELATIONSHIP_ID \<and> direction r = js ''backward'' \<and> \<not> ended r"

definition getVoiceActor :: "service \<Rightarrow> jsstring option \<Rightarrow> ui \<Rightarrow> jsstring option \<times> ui" where
  "getVoiceActor ws characterMBID u =
     (if \<not> truthy characterMBID then (None, u)
      else
        (case find voice_actor_relation (ws (the characterMBID)) of
           None \<Rightarrow> (None, alert ''No voice actor relationship found.'' u)
         | Some r \<Rightarrow> (Some (artist_id r), u)))"

text \<open>
  \<^verbatim>\<open>getCVJoinPhrases\<close> and \<^verbatim>\<open>setCVJoinPhrases\<close> (source lines 254 to 278). The stored
  value is absent or an object with both keys; a token is \<open>None\<close> when the prompt that
  asked for it was cancelled (\<^verbatim>\<open>null\<close>).
\<close>

record cv_config =
  joinPhrases :: "jsstring option \<times> jsstring option"
  separator :: "jsstring option"

definition CV_JOIN_PHRASES :: "jsstring option \<times> jsstring option" where
  "CV_JOIN_PHRASES = (Some (js '' (CV ''), Some (js '')''))"

definition SEPARATOR :: "jsstring option" where
  "SEPARATOR = Some (js '','')"

definition getCVJoinPhrases :: "cv_config option \<Rightarrow> cv_config" where
  "getCVJoinPhrases config =
     (case config of
        None \<Rightarrow> \<lparr>joinPhrases = CV_JOIN_PHRASES, separator = SEPARATOR\<rparr>
      | Some c \<Rightarrow> c)"


text \<open>
  \<^verbatim>\<open>appendCharacterCV\<close> (source lines 231 to 252). String concatenation turns a missing
  operand into its name. \<open>cv_updates\<close> is the callback that runs when the voice actor
  lookup has answered.
\<close>

definition str_of :: "string \<Rightarrow> jsstring option \<Rightarrow> jsstring" where
  "str_of missing v = (case v of None \<Rightarrow> js missing | Some s \<Rightarrow> s)"

definition artist_value :: "ArtistCreditInputs option \<Rightarrow> ui \<Rightarrow> jsstring option" where
  "artist_value g u =
     (case g of
        None \<Rightarrow> None
      | Some inputs \<Rightarrow>
          (case artist_el inputs of
             None \<Rightarrow> None
           | Some a \<Rightarrow> Some (el_value (text_inputs u ! a))))"

definition cv_updates :: "host \<Rightarrow> cv_config \<Rightarrow> jsstring \<Rightarrow> ui \<Rightarrow> error list \<times> ui" where
  "cv_updates h cfg mbid u =
     (case update (- 2) (\<lambda>credit. credit\<lparr>joinPhrase :=
               Some (str_of ''undefined'' (joinPhrase credit) @ str_of ''null'' (separator cfg) @ js '' '')\<rparr>) u of
        Inl (e, u') \<Rightarrow> ([e], u')
      | Inr u1 \<Rightarrow>
          (case update (- 1) (\<lambda>credit. credit\<lparr>joinPhrase := fst (joinPhrases cfg)\<rparr>) u1 of
             Inl (e, u') \<Rightarrow> ([e], u')
           | Inr u2 \<Rightarrow>
               append_credit h \<lparr>artist = mbid, creditedAs = None,
                                 joinPhrase = snd (joinPhrases cfg)\<rparr> u2))"

definition appendCharacterCV :: "host \<Rightarrow> cv_config option \<Rightarrow> service \<Rightarrow> ui \<Rightarrow> error list \<times> ui" where
  "appendCharacterCV h config ws u =
     (let characterName = artist_value (nth_opt (getInputs (- 1) u) 0) u in
      if \<not> truthy characterName then ([], alert ''Please enter a character first.'' u)
      else
        let cfg = getCVJoinPhrases config;
            (characterMBID, u1) = getCharacterMBID (the characterName) u;
            (mbid, u2) = getVoiceActor ws characterMBID u1
        in if \<not> truthy mbid then ([], u2) else cv_updates h cfg (the mbid) u2)"

text \<open>\<^verbatim>\<open>parseArtistCredits\<close> (source lines 354 to 363).\<close>

definition parseArtistCredits :: "host \<Rightarrow> ui \<Rightarrow> error list \<times> ui" where
  "parseArtistCredits h u =
     (let acString = artist_value (nth_opt (getInputs 0 u) 0) u in
      if \<not> truthy acString
      then ([], alert ''Please enter the artist credits to parse in the first input box.'' u)
      else fill h (parseArtistCreditsString (the acString)) u)"

text \<open>
  A page that renders the new slot in time: three empty, enabled inputs at the end.
\<close>

definition slot_host :: host where
  "slot_host xs = xs @ replicate 3 \<lparr>el_value = [], el_disabled = False\<rparr>"

subsection \<open>Example states\<close>

text \<open>
  A bubble with one slot holding a string to parse, one with three slots, and one with
  two slots whose last artist is a character shown in the preview row, with a web service
  that knows the character's voice actor.
\<close>

definition one_slot :: ui where
  "one_slot = \<lparr>text_inputs = [\<lparr>el_value = js ''A, B'', el_disabled = False\<rparr>,
                               \<lparr>el_value = [], el_disabled = False\<rparr>,
                               \<lparr>el_value = [], el_disabled = False\<rparr>],
               preview = [], add_clicks = 0, dispatched = 0, alerts = []\<rparr>"

definition three_slots :: ui where
  "three_slots =
     \<lparr>text_inputs = map (\<lambda>s. \<lparr>el_value = s, el_disabled = False\<rparr>)
        [js ''A'', js ''a'', js '', '', js ''B'', [], js '' & '', js ''C'', [], []],
      preview = [], add_clicks = 0, dispatched = 0, alerts = []\<rparr>"

definition example_ui :: ui where
  "example_ui =
     \<lparr>text_inputs = map (\<lambda>s. \<lparr>el_value = s, el_disabled = False\<rparr>)
        [js ''Other'', [], js '' & '', js ''Chara'', [], js ''; ''],
      preview =
        [\<lparr>name_variation = False, title = [], bdi_innerText = js ''Other'',
          href = js ''https://musicbrainz.org/artist/111''\<rparr>,
         \<lparr>name_variation = True, title = js ''Chara'' @ [32, 8211, 32] @ js ''Legal Name'',
          bdi_innerText = js ''C'', href = js ''https://musicbrainz.org/artist/222''\<rparr>],
      add_clicks = 0, dispatched = 0, alerts = []\<rparr>"

definition example_service :: service where
  "example_service gid =
     (if gid = js ''222''
      then [\<lparr>type_id = RELATIONSHIP_ID, direction = js ''forward'', ended = False, artist_id = js ''x-1''\<rparr>,
            \<lparr>type_id = RELATIONSHIP_ID, direction = js ''backward'', ended = True, artist_id = js ''x-2''\<rparr>,
            \<lparr>type_id = RELATIONSHIP_ID, direction = js ''backward'', ended = False, artist_id = js ''abc-123''\<rparr>]
      else [])"




section \<open>Properties of the parser\<close>

lemma star_matches_nonempty: "star_matches P s \<noteq> []"
  by (cases s) auto

lemma rmatch_consumes: "consumes r \<Longrightarrow> t \<in> set (rmatch r s) \<Longrightarrow> length t < length s"
proof (induction r arbitrary: s t)
  case (Seq a b)
  from Seq.prems(2) obtain u where u: "u \<in> set (rmatch a s)" and t: "t \<in> set (rmatch b u)"
    by auto
  have "length u \<le> length s" "length t \<le> length u"
    using u t rmatch_length by blast+
  moreover have "length u < length s \<or> length t < length u"
    using Seq.IH Seq.prems(1) u t by auto
  ultimately show ?case by linarith
qed (auto split: list.splits if_splits)

lemma matcher_consumes:
  assumes "consumes r" "matcher r S i = Some e" "i \<le> length S"
  shows "i < e \<and> e \<le> length S"
proof -
  from assms(2) obtain rest rs where rs: "rmatch r (drop i S) = rest # rs" and e: "e = length S - length rest"
    by (auto simp: matcher_def split: list.splits)
  then have "length rest < length (drop i S)" using rmatch_consumes [OF assms(1), of rest "drop i S"] by simp
  with e assms(3) show ?thesis by auto
qed

lemma matcher_at_end: "consumes r \<Longrightarrow> matcher r S (length S) = None"
  using matcher_consumes [of r S "length S"] by (cases "matcher r S (length S)") auto

lemma exec_from_at_end: "consumes r \<Longrightarrow> exec_from r S (length S) = None"
  by (subst exec_from.simps, simp add: matcher_at_end, subst exec_from.simps, simp)

lemma exec_from_skip:
  "p \<le> q \<Longrightarrow> q \<le> length S \<Longrightarrow> (\<forall>k. p \<le> k \<and> k < q \<longrightarrow> matcher r S k = None)
     \<Longrightarrow> exec_from r S p = exec_from r S q"
proof (induction "q - p" arbitrary: p)
  case 0
  then show ?case by simp
next
  case (Suc n)
  then have "p < q" "matcher r S p = None" by auto
  then have "exec_from r S p = exec_from r S (p + 1)"
    using Suc.prems by (subst exec_from.simps) simp
  also have "\<dots> = exec_from r S q"
    using Suc by (intro Suc.hyps(1)) auto
  finally show ?case .
qed

lemma slice_append_drop:
  "p \<le> q \<Longrightarrow> q \<le> e \<Longrightarrow> e \<le> length S \<Longrightarrow> slice S p q @ slice S q e @ drop e S = drop p S"
proof -
  assume a: "p \<le> q" "q \<le> e" "e \<le> length S"
  have "slice S q e @ drop e S = drop q S"
    using a by (simp add: slice_def) (metis add_diff_inverse_nat append_take_drop_id drop_drop not_less add.commute)
  moreover have "slice S p q @ drop q S = drop p S"
    using a by (simp add: slice_def) (metis add_diff_inverse_nat append_take_drop_id drop_drop not_less add.commute)
  ultimately show ?thesis by simp
qed

lemma credit_text_simps:
  "credit_text \<lparr>artist = a, creditedAs = x, joinPhrase = None\<rparr> = a"
  "credit_text \<lparr>artist = a, creditedAs = x, joinPhrase = Some j\<rparr> = a @ j"
  by (simp_all add: credit_text_def)

lemma roundtrip_loop:
  "consumes r \<Longrightarrow> p \<le> q \<Longrightarrow> q \<le> length S
     \<Longrightarrow> (\<forall>k. p \<le> k \<and> k < q \<longrightarrow> matcher r S k = None)
     \<Longrightarrow> concat (map credit_text (credits_loop (split_loop r S p q) (matchAll_from r S p) p)) = drop p S"
proof (induction r S p q rule: split_loop.induct)
  case (1 r S p q)
  note c = "1.prems"(1) and pq = "1.prems"(2) and qS = "1.prems"(3) and none = "1.prems"(4)
  have skip: "exec_from r S p = exec_from r S q" using pq qS none by (rule exec_from_skip)
  show ?case
  proof (cases "q < length S")
    case False
    with qS have q: "q = length S" by simp
    have "matchAll_from r S p = []"
      using q c skip by (subst matchAll_from.simps) (simp add: exec_from_at_end)
    moreover have "split_loop r S p q = [slice S p (length S)]"
      using q by (subst split_loop.simps) simp
    ultimately show ?thesis by (simp add: credit_text_simps slice_def)
  next
    case True
    show ?thesis
    proof (cases "matcher r S q")
      case None
      have sp: "split_loop r S p q = split_loop r S p (q + 1)"
        using True None by (subst split_loop.simps) simp
      have "\<forall>k. p \<le> k \<and> k < q + 1 \<longrightarrow> matcher r S k = None"
        using none None by (metis Suc_eq_plus1 less_Suc_eq)
      with "1.IH"(1) [OF True None c] pq True sp show ?thesis by simp
    next
      case (Some e)
      from matcher_consumes [OF c Some] True have e: "q < e" "e \<le> length S" by auto
      then have m: "min e (length S) = e" and ne: "e \<noteq> p" using pq by auto
      have sp: "split_loop r S p q = slice S p q # split_loop r S e e"
        using True Some m ne by (subst split_loop.simps) simp
      have "exec_from r S q = Some (q, e)" using True Some by (subst exec_from.simps) simp
      with skip have ma: "matchAll_from r S p = (q, slice S q e) # matchAll_from r S e"
        using e by (subst matchAll_from.simps) simp
      have vac: "\<forall>k. e \<le> k \<and> k < e \<longrightarrow> matcher r S k = None" by auto
      have IH: "concat (map credit_text (credits_loop (split_loop r S e e) (matchAll_from r S e) e)) = drop e S"
        by (rule "1.IH"(3) [OF True Some m [symmetric] ne c order_refl e(2) vac])
      have len: "p + length (slice S p q) = q" "q + length (slice S q e) = e"
        using pq qS e by (auto simp: slice_def)
      show ?thesis
        using IH len slice_append_drop [of p q e S] pq e
        by (simp add: sp ma credit_text_simps)
    qed
  qed
qed

lemma concat_credit_text_first:
  "concat (map credit_text (case cs of [] \<Rightarrow> [] | c # cs' \<Rightarrow> c\<lparr>creditedAs := x c\<rparr> # cs')) = concat (map credit_text cs)"
  by (cases cs) (auto simp: credit_text_def)

lemma JOIN_PHRASE_PATTERN_consumes: "consumes JOIN_PHRASE_PATTERN"
  by (simp add: JOIN_PHRASE_PATTERN_def js_def)

text \<open>
  C1. Round trip: for every input string, concatenating, in order, each returned credit's
  artist followed by its join phrase (nothing when the join phrase is absent) gives back
  the input string.
\<close>

theorem parse_roundtrip:
  "concat (map credit_text (parseArtistCreditsString s)) = s"
proof (cases "s = []")
  case True
  then show ?thesis by (simp add: parseArtistCreditsString_def)
next
  case False
  have "concat (map credit_text (credits_loop (split_loop JOIN_PHRASE_PATTERN s 0 0) (matchAll_from JOIN_PHRASE_PATTERN s 0) 0)) = drop 0 s"
    by (rule roundtrip_loop [OF JOIN_PHRASE_PATTERN_consumes]) auto
  with False show ?thesis
    by (simp add: parseArtistCreditsString_def Let_def matchAll_def split_js_def concat_credit_text_first)
qed

theorem parse_roundtrip_witness:
  "concat (map credit_text (parseArtistCreditsString (js ''A & B''))) = js ''A & B''"
  by (rule parse_roundtrip)

text \<open>
  C2. The second documented example, \<^verbatim>\<open>parseArtistCreditsString("A(CV.B), C(CV.D)")\<close>.
  The input ends in a match, so \<^verbatim>\<open>split\<close> returns a trailing empty string and the
  parser returns a fifth credit with an empty artist after the four documented ones.
\<close>

theorem parse_cv_example:
  "parseArtistCreditsString (js ''A(CV.B), C(CV.D)'') =
     [\<lparr>artist = js ''A'', creditedAs = Some (js ''A''), joinPhrase = Some (js ''(CV.'')\<rparr>,
      \<lparr>artist = js ''B'', creditedAs = None, joinPhrase = Some (js ''), '')\<rparr>,
      \<lparr>artist = js ''C'', creditedAs = None, joinPhrase = Some (js ''(CV.'')\<rparr>,
      \<lparr>artist = js ''D'', creditedAs = None, joinPhrase = Some (js '')'')\<rparr>,
      \<lparr>artist = js '''', creditedAs = None, joinPhrase = None\<rparr>]"
  by code_simp

lemma credits_loop_length: "length (credits_loop as ms pos) = length as"
  by (induction as ms pos rule: credits_loop.induct) (auto simp: Let_def split: list.splits)

lemma credits_loop_artist: "k < length as \<Longrightarrow> artist (credits_loop as ms pos ! k) = as ! k"
proof (induction as ms pos arbitrary: k rule: credits_loop.induct)
  case (1 ms pos)
  then show ?case by simp
next
  case (2 a as ms pos)
  then show ?case by (cases k) (auto simp: Let_def split: list.splits)
qed

lemma credits_loop_joinPhrase:
  "k < length as \<Longrightarrow>
     joinPhrase (credits_loop as ms pos ! k) =
       (if k < length ms \<and> fst (ms ! k) = entity_end pos (credits_loop as ms pos) k
        then Some (snd (ms ! k)) else None)"
proof (induction as ms pos arbitrary: k rule: credits_loop.induct)
  case (1 ms pos)
  then show ?case by simp
next
  case (2 a as ms pos)
  show ?case
  proof (cases ms)
    case Nil
    show ?thesis
    proof (cases k)
      case 0
      with Nil show ?thesis by (simp add: Let_def)
    next
      case (Suc k')
      with 2 Nil show ?thesis by (simp add: Let_def)
    qed
  next
    case (Cons m rest)
    obtain idx ph where m: "m = (idx, ph)" by (cases m)
    show ?thesis
    proof (cases k)
      case 0
      with Cons m show ?thesis by (simp add: Let_def entity_end_def)
    next
      case (Suc k')
      with "2.prems" have k': "k' < length as" by simp
      show ?thesis
      proof (cases "idx = pos + length a")
        case True
        from "2.IH"(2) [OF refl Cons m [symmetric] True k']
        show ?thesis using Cons m True Suc
          by (simp add: Let_def entity_end_def credit_text_simps add.assoc)
      next
        case False
        from "2.IH"(3) [OF refl Cons m [symmetric] False k']
        show ?thesis using Cons m False Suc
          by (simp add: Let_def entity_end_def credit_text_simps add.assoc)
      qed
    qed
  qed
qed


lemma credits_loop_creditedAs: "c \<in> set (credits_loop as ms pos) \<Longrightarrow> creditedAs c = None"
  by (induction as ms pos rule: credits_loop.induct) (auto simp: Let_def split: list.splits if_splits)

lemma parse_unfold:
  "s \<noteq> [] \<Longrightarrow> parseArtistCreditsString s =
     first_creditedAs (credits_loop (split_js JOIN_PHRASE_PATTERN s) (matchAll JOIN_PHRASE_PATTERN s) 0)"
  by (simp add: parseArtistCreditsString_def first_creditedAs_def Let_def)

lemma first_creditedAs_maps:
  "length (first_creditedAs cs) = length cs"
  "map artist (first_creditedAs cs) = map artist cs"
  "map joinPhrase (first_creditedAs cs) = map joinPhrase cs"
  "map credit_text (first_creditedAs cs) = map credit_text cs"
  by (cases cs; simp add: first_creditedAs_def credit_text_def)+

lemma entity_end_maps:
  assumes "k < length cs" "length cs' = length cs" "map artist cs' = map artist cs"
    "map credit_text cs' = map credit_text cs"
  shows "entity_end pos cs' k = entity_end pos cs k"
proof -
  have "artist (cs' ! k) = artist (cs ! k)"
    using assms(1-3) by (metis nth_map)
  moreover have "map credit_text (take k cs') = map credit_text (take k cs)"
    using assms(4) by (simp add: take_map [symmetric])
  ultimately show ?thesis by (simp add: entity_end_def)
qed

text \<open>
  C3. A match is recorded as the join phrase of the credit it follows exactly when its
  start index equals the position at which that credit's artist ends (\<open>entity_end\<close>);
  otherwise, or when no match is left, the credit gets no join phrase. The first conjunct
  states this for the loop on any artists and matches, the second for the parser itself.
\<close>

theorem joinPhrase_recorded_iff_adjacent:
  "(k < length artists \<longrightarrow>
      joinPhrase (credits_loop artists matches pos ! k) =
        (if k < length matches \<and> fst (matches ! k) = entity_end pos (credits_loop artists matches pos) k
         then Some (snd (matches ! k)) else None)) \<and>
   (k < length (parseArtistCreditsString s) \<longrightarrow>
      joinPhrase (parseArtistCreditsString s ! k) =
        (if k < length (matchAll JOIN_PHRASE_PATTERN s) \<and>
            fst (matchAll JOIN_PHRASE_PATTERN s ! k) = entity_end 0 (parseArtistCreditsString s) k
         then Some (snd (matchAll JOIN_PHRASE_PATTERN s ! k)) else None))"
proof (intro conjI impI)
  assume "k < length artists"
  then show "joinPhrase (credits_loop artists matches pos ! k) =
        (if k < length matches \<and> fst (matches ! k) = entity_end pos (credits_loop artists matches pos) k
         then Some (snd (matches ! k)) else None)"
    by (rule credits_loop_joinPhrase)
next
  let ?ms = "matchAll JOIN_PHRASE_PATTERN s"
  let ?as = "split_js JOIN_PHRASE_PATTERN s"
  let ?cs = "credits_loop ?as ?ms 0"
  assume k: "k < length (parseArtistCreditsString s)"
  then have ne: "s \<noteq> []" by (auto simp: parseArtistCreditsString_def)
  have p: "parseArtistCreditsString s = first_creditedAs ?cs" using ne by (rule parse_unfold)
  from k p have k': "k < length ?cs" by (simp add: first_creditedAs_maps)
  then have ka: "k < length ?as" by (simp add: credits_loop_length)
  have "joinPhrase (first_creditedAs ?cs ! k) = map joinPhrase (first_creditedAs ?cs) ! k"
    using k' by (simp add: first_creditedAs_maps(1))
  also have "\<dots> = joinPhrase (?cs ! k)" using k' by (simp add: first_creditedAs_maps(3))
  finally have j: "joinPhrase (parseArtistCreditsString s ! k) = joinPhrase (?cs ! k)" using p by simp
  have e: "entity_end 0 (parseArtistCreditsString s) k = entity_end 0 ?cs k"
    unfolding p using k' by (intro entity_end_maps) (simp_all add: first_creditedAs_maps)
  show "joinPhrase (parseArtistCreditsString s ! k) =
        (if k < length ?ms \<and> fst (?ms ! k) = entity_end 0 (parseArtistCreditsString s) k
         then Some (snd (?ms ! k)) else None)"
    unfolding j e using ka by (rule credits_loop_joinPhrase)
qed

lemma parse_eval_amp:
  "parseArtistCreditsString (js ''A & B'') =
     [\<lparr>artist = js ''A'', creditedAs = Some (js ''A''), joinPhrase = Some (js '' & '')\<rparr>,
      \<lparr>artist = js ''B'', creditedAs = None, joinPhrase = None\<rparr>]"
  by code_simp

lemma credits_loop_eval_dropped:
  "credits_loop [js ''A'', js ''B''] [(1, js '',''), (5, js ''&'')] 0 =
     [\<lparr>artist = js ''A'', creditedAs = None, joinPhrase = Some (js '','')\<rparr>,
      \<lparr>artist = js ''B'', creditedAs = None, joinPhrase = None\<rparr>]"
  by (simp add: js_def)

theorem joinPhrase_recorded_iff_adjacent_witness:
  "joinPhrase (credits_loop [js ''A'', js ''B''] [(1, js '',''), (5, js ''&'')] 0 ! 0) = Some (js '','') \<and>
   joinPhrase (credits_loop [js ''A'', js ''B''] [(1, js '',''), (5, js ''&'')] 0 ! 1) = None \<and>
   joinPhrase (parseArtistCreditsString (js ''A & B'') ! 0) = Some (js '' & '')"
proof -
  have a: "joinPhrase (credits_loop [js ''A'', js ''B''] [(1, js '',''), (5, js ''&'')] 0 ! 0) = Some (js '','')"
    and b: "joinPhrase (credits_loop [js ''A'', js ''B''] [(1, js '',''), (5, js ''&'')] 0 ! 1) = None"
    by (simp_all only: credits_loop_eval_dropped) simp_all
  have c: "joinPhrase (parseArtistCreditsString (js ''A & B'') ! 0) = Some (js '' & '')"
    by (simp only: parse_eval_amp) simp
  show ?thesis
    using joinPhrase_recorded_iff_adjacent [of 0 "[js ''A'', js ''B'']" "[(1, js '',''), (5, js ''&'')]" 0 "js ''A & B''"]
    by (simp only: a b c simp_thms)
qed

text \<open>
  C4. In a non-empty result the first credit's \<open>creditedAs\<close> is present and equals its
  artist, and no other credit has \<open>creditedAs\<close> set.
\<close>

theorem first_credit_creditedAs:
  "parseArtistCreditsString s \<noteq> [] \<Longrightarrow>
     creditedAs (hd (parseArtistCreditsString s)) = Some (artist (hd (parseArtistCreditsString s))) \<and>
     (\<forall>c \<in> set (tl (parseArtistCreditsString s)). creditedAs c = None)"
proof -
  assume a: "parseArtistCreditsString s \<noteq> []"
  then have ne: "s \<noteq> []" by (auto simp: parseArtistCreditsString_def)
  let ?cs = "credits_loop (split_js JOIN_PHRASE_PATTERN s) (matchAll JOIN_PHRASE_PATTERN s) 0"
  have p: "parseArtistCreditsString s = first_creditedAs ?cs" using ne by (rule parse_unfold)
  with a obtain c cs where cs: "?cs = c # cs" by (cases ?cs) (auto simp: first_creditedAs_def)
  then have "\<forall>x \<in> set cs. creditedAs x = None"
    using credits_loop_creditedAs [of _ "split_js JOIN_PHRASE_PATTERN s" "matchAll JOIN_PHRASE_PATTERN s" 0] by simp
  with p cs show ?thesis by (simp add: first_creditedAs_def)
qed

theorem first_credit_creditedAs_witness:
  "parseArtistCreditsString (js ''A & B'') \<noteq> [] \<and>
   creditedAs (hd (parseArtistCreditsString (js ''A & B''))) = Some (js ''A'') \<and>
   map creditedAs (tl (parseArtistCreditsString (js ''A & B''))) = [None]"
  using first_credit_creditedAs [of "js ''A & B''"]
  by (simp add: parse_eval_amp)

section \<open>Properties of the editor\<close>

text \<open>
  \<open>write_field\<close> is one iteration of the loop of \<open>updateInputs\<close> on an existing
  group; \<open>group_at n m\<close> is the \<open>m\<close>-th group that \<open>getInputs\<close> forms from \<open>n\<close> inputs.
\<close>

definition write_field :: "ArtistCreditInputs \<Rightarrow> key \<Rightarrow> jsstring option \<Rightarrow> ui \<Rightarrow> ui" where
  "write_field g k v u = (if truthy v then setInputValue (field_el g k) (the v) u else u)"

definition group_at :: "nat \<Rightarrow> nat \<Rightarrow> ArtistCreditInputs" where
  "group_at n m =
     \<lparr>artist_el = (if 3 * m < n then Some (3 * m) else None),
      creditedAs_el = (if 3 * m + 1 < n then Some (3 * m + 1) else None),
      joinPhrase_el = (if 3 * m + 2 < n then Some (3 * m + 2) else None)\<rparr>"

lemma setInputValue_frame:
  "length (text_inputs (setInputValue r v u)) = length (text_inputs u)"
  "preview (setInputValue r v u) = preview u"
  "add_clicks (setInputValue r v u) = add_clicks u"
  "alerts (setInputValue r v u) = alerts u"
  by (simp_all add: setInputValue_def split: option.splits)

lemma nth_setInputValue:
  "text_inputs (setInputValue r v u) ! i =
     (if r = Some i \<and> i < length (text_inputs u) \<and> \<not> el_disabled (text_inputs u ! i)
      then (text_inputs u ! i)\<lparr>el_value := v\<rparr> else text_inputs u ! i)"
  by (auto simp: setInputValue_def nth_list_update split: option.splits)

lemma write_field_frame:
  "length (text_inputs (write_field g k v u)) = length (text_inputs u)"
  "preview (write_field g k v u) = preview u"
  "add_clicks (write_field g k v u) = add_clicks u"
  "alerts (write_field g k v u) = alerts u"
  by (simp_all add: write_field_def setInputValue_frame)

lemma nth_write_field:
  "text_inputs (write_field g k v u) ! i =
     (if truthy v \<and> field_el g k = Some i \<and> i < length (text_inputs u) \<and> \<not> el_disabled (text_inputs u ! i)
      then (text_inputs u ! i)\<lparr>el_value := the v\<rparr> else text_inputs u ! i)"
  by (simp add: write_field_def nth_setInputValue)

lemma updateInputs_Some:
  "updateInputs (Some g) c u =
     Inr (write_field g JoinPhrase (joinPhrase c)
           (write_field g CreditedAs (creditedAs c)
             (write_field g Artist (Some (artist c)) u)))"
  by (simp add: updateInputs_def entries_def write_field_def)


lemma nth_opt_chunk:
  "nth_opt (take 3 (drop (m * 3) [0 ..< n])) j = (if j < 3 \<and> 3 * m + j < n then Some (3 * m + j) else None)"
  by (auto simp: nth_opt_def mult.commute)

lemma getInputs_0: "getInputs 0 u = map (group_at (length (text_inputs u))) [0 ..< (length (text_inputs u) + 2) div 3]"
  by (simp add: getInputs_def js_slice_def Let_def comp_def nth_opt_chunk group_at_def del: take_upt drop_upt)

lemma getInputs_slice: "getInputs s u = js_slice s (getInputs 0 u)"
  by (simp add: getInputs_def js_slice_def Let_def drop_map)

lemma in_getInputs:
  "g \<in> set (getInputs s u) \<Longrightarrow> \<exists>m. g = group_at (length (text_inputs u)) m"
  by (subst (asm) getInputs_slice) (auto simp: js_slice_def Let_def getInputs_0 dest!: in_set_dropD)

lemma js_at_in_set: "js_at xs i = Some x \<Longrightarrow> x \<in> set xs"
  by (auto simp: js_at_def Let_def split: if_splits)

lemma field_el_group_at:
  "field_el (group_at n m) k = Some i \<longleftrightarrow>
     i < n \<and> i = 3 * m + (case k of Artist \<Rightarrow> 0 | CreditedAs \<Rightarrow> 1 | JoinPhrase \<Rightarrow> 2)"
  by (cases k) (auto simp: field_el_def group_at_def)

lemma field_el_inj:
  "field_el (group_at n m) k = Some i \<Longrightarrow> field_el (group_at n m) k' = Some i \<Longrightarrow> k = k'"
  by (cases k; cases k') (auto simp: field_el_group_at)

lemma update_None: "js_at (getInputs 0 u) index = None \<Longrightarrow> update index f u = Inr u"
  by (simp add: update_def)

lemma update_complete:
  assumes "js_at (getInputs 0 u) index = Some g"
    and "artist_el g = Some a" "creditedAs_el g = Some c" "joinPhrase_el g = Some j"
  shows "update index f u =
     updateInputs (Some g)
       (f \<lparr>artist = el_value (text_inputs u ! a),
           creditedAs = Some (el_value (text_inputs u ! c)),
           joinPhrase = Some (el_value (text_inputs u ! j))\<rparr>) u"
  using assms by (simp add: update_def)

lemma update_cases:
  assumes "js_at (getInputs 0 u) index = Some g"
  shows "(\<exists>e. update index f u = Inl (e, u)) \<or> (\<exists>cr. update index f u = updateInputs (Some g) cr u)"
  using assms by (auto simp: update_def Let_def split: option.splits)

lemma nth_updateInputs_other:
  assumes "\<forall>k. field_el g k \<noteq> Some i"
  shows "text_inputs (outcome_state (updateInputs (Some g) cr u)) ! i = text_inputs u ! i"
  using assms by (simp add: updateInputs_Some outcome_state_def nth_write_field write_field_frame)

lemma length_updateInputs:
  "length (text_inputs (outcome_state (updateInputs (Some g) cr u))) = length (text_inputs u)"
  by (simp add: updateInputs_Some outcome_state_def write_field_frame)

lemma nth_updateInputs_group:
  assumes "field_el (group_at n m) k = Some i" "n = length (text_inputs u)"
  shows "text_inputs (outcome_state (updateInputs (Some (group_at n m)) cr u)) ! i =
     (if truthy (case k of Artist \<Rightarrow> Some (artist cr) | CreditedAs \<Rightarrow> creditedAs cr | JoinPhrase \<Rightarrow> joinPhrase cr)
         \<and> \<not> el_disabled (text_inputs u ! i)
      then (text_inputs u ! i)\<lparr>el_value := the (case k of Artist \<Rightarrow> Some (artist cr) | CreditedAs \<Rightarrow> creditedAs cr | JoinPhrase \<Rightarrow> joinPhrase cr)\<rparr>
      else text_inputs u ! i)"
  using assms
  by (cases k) (auto simp: updateInputs_Some outcome_state_def nth_write_field write_field_frame field_el_group_at)

text \<open>
  C5. \<open>update index f\<close> is a read-modify-write of one slot. When no slot exists at
  \<open>index\<close> (a negative index counts from the end) nothing is written. When a slot exists,
  no input is added or removed and every input outside that slot keeps its value; when
  the slot has its three fields, \<open>f\<close> is applied to their current values and each field
  is written exactly when the result's value for it is present and non-empty (and the
  input is enabled), and keeps its prior value otherwise.
\<close>

theorem update_read_modify_write:
  "(js_at (getInputs 0 u) index = None \<longrightarrow> update index f u = Inr u) \<and>
   (\<forall>g. js_at (getInputs 0 u) index = Some g \<longrightarrow>
      length (text_inputs (outcome_state (update index f u))) = length (text_inputs u) \<and>
      (\<forall>i. (\<forall>k. field_el g k \<noteq> Some i) \<longrightarrow>
           text_inputs (outcome_state (update index f u)) ! i = text_inputs u ! i) \<and>
      (\<forall>a c j. artist_el g = Some a \<and> creditedAs_el g = Some c \<and> joinPhrase_el g = Some j \<longrightarrow>
         (let new = f \<lparr>artist = el_value (text_inputs u ! a),
                        creditedAs = Some (el_value (text_inputs u ! c)),
                        joinPhrase = Some (el_value (text_inputs u ! j))\<rparr>;
              u' = outcome_state (update index f u)
          in update index f u = Inr u' \<and>
             text_inputs u' ! a =
               (if artist new \<noteq> [] \<and> \<not> el_disabled (text_inputs u ! a)
                then (text_inputs u ! a)\<lparr>el_value := artist new\<rparr> else text_inputs u ! a) \<and>
             text_inputs u' ! c =
               (if truthy (creditedAs new) \<and> \<not> el_disabled (text_inputs u ! c)
                then (text_inputs u ! c)\<lparr>el_value := the (creditedAs new)\<rparr> else text_inputs u ! c) \<and>
             text_inputs u' ! j =
               (if truthy (joinPhrase new) \<and> \<not> el_disabled (text_inputs u ! j)
                then (text_inputs u ! j)\<lparr>el_value := the (joinPhrase new)\<rparr> else text_inputs u ! j))))"
proof (intro conjI allI impI)
  assume "js_at (getInputs 0 u) index = None"
  then show "update index f u = Inr u" by (rule update_None)
next
  fix g assume g: "js_at (getInputs 0 u) index = Some g"
  from update_cases [OF g, of f]
  show "length (text_inputs (outcome_state (update index f u))) = length (text_inputs u)"
    by (auto simp: length_updateInputs) (simp add: outcome_state_def)
next
  fix g i assume g: "js_at (getInputs 0 u) index = Some g" and i: "\<forall>k. field_el g k \<noteq> Some i"
  from update_cases [OF g, of f]
  show "text_inputs (outcome_state (update index f u)) ! i = text_inputs u ! i"
    using nth_updateInputs_other [OF i] by (auto simp: outcome_state_def)
next
  fix g a c j
  assume g: "js_at (getInputs 0 u) index = Some g"
    and f: "artist_el g = Some a \<and> creditedAs_el g = Some c \<and> joinPhrase_el g = Some j"
  let ?n = "length (text_inputs u)"
  let ?new = "f \<lparr>artist = el_value (text_inputs u ! a),
                  creditedAs = Some (el_value (text_inputs u ! c)),
                  joinPhrase = Some (el_value (text_inputs u ! j))\<rparr>"
  from g obtain m where m: "g = group_at ?n m"
    using in_getInputs [of g 0 u] js_at_in_set by fastforce
  have up: "update index f u = updateInputs (Some g) ?new u"
    using update_complete [OF g] f by simp
  have fa: "field_el (group_at ?n m) Artist = Some a"
    and fc: "field_el (group_at ?n m) CreditedAs = Some c"
    and fj: "field_el (group_at ?n m) JoinPhrase = Some j"
    using f m by (simp_all add: field_el_def)
  have r: "update index f u = Inr (outcome_state (update index f u))"
    unfolding up by (simp add: updateInputs_Some outcome_state_def)
  have ea: "text_inputs (outcome_state (update index f u)) ! a =
               (if artist ?new \<noteq> [] \<and> \<not> el_disabled (text_inputs u ! a)
                then (text_inputs u ! a)\<lparr>el_value := artist ?new\<rparr> else text_inputs u ! a)"
    unfolding up m using nth_updateInputs_group [OF fa refl, of ?new] by (simp add: truthy_def)
  have ec: "text_inputs (outcome_state (update index f u)) ! c =
               (if truthy (creditedAs ?new) \<and> \<not> el_disabled (text_inputs u ! c)
                then (text_inputs u ! c)\<lparr>el_value := the (creditedAs ?new)\<rparr> else text_inputs u ! c)"
    unfolding up m using nth_updateInputs_group [OF fc refl, of ?new] by simp
  have ej: "text_inputs (outcome_state (update index f u)) ! j =
               (if truthy (joinPhrase ?new) \<and> \<not> el_disabled (text_inputs u ! j)
                then (text_inputs u ! j)\<lparr>el_value := the (joinPhrase ?new)\<rparr> else text_inputs u ! j)"
    unfolding up m using nth_updateInputs_group [OF fj refl, of ?new] by simp
  show "(let new = ?new; u' = outcome_state (update index f u)
          in update index f u = Inr u' \<and>
             text_inputs u' ! a =
               (if artist new \<noteq> [] \<and> \<not> el_disabled (text_inputs u ! a)
                then (text_inputs u ! a)\<lparr>el_value := artist new\<rparr> else text_inputs u ! a) \<and>
             text_inputs u' ! c =
               (if truthy (creditedAs new) \<and> \<not> el_disabled (text_inputs u ! c)
                then (text_inputs u ! c)\<lparr>el_value := the (creditedAs new)\<rparr> else text_inputs u ! c) \<and>
             text_inputs u' ! j =
               (if truthy (joinPhrase new) \<and> \<not> el_disabled (text_inputs u ! j)
                then (text_inputs u ! j)\<lparr>el_value := the (joinPhrase new)\<rparr> else text_inputs u ! j))"
    unfolding Let_def using r ea ec ej by blast
qed

text \<open>
  The theorem at a three-slot list: \<open>update (- 1)\<close> changes the join phrase of the last
  slot only, and \<open>update 3\<close> finds no slot.
\<close>

theorem update_read_modify_write_witness:
  "js_at (getInputs 0 three_slots) (- 1) =
     Some \<lparr>artist_el = Some 6, creditedAs_el = Some 7, joinPhrase_el = Some 8\<rparr> \<and>
   update (- 1) (\<lambda>c. c\<lparr>creditedAs := None, joinPhrase := Some (js ''x'')\<rparr>) three_slots =
     Inr (three_slots\<lparr>text_inputs := (text_inputs three_slots)[8 := \<lparr>el_value = js ''x'', el_disabled = False\<rparr>],
                      dispatched := 2\<rparr>) \<and>
   js_at (getInputs 0 three_slots) 3 = None \<and>
   update 3 (\<lambda>c. c\<lparr>creditedAs := None, joinPhrase := Some (js ''x'')\<rparr>) three_slots = Inr three_slots"
proof -
  let ?f = "\<lambda>c. c\<lparr>creditedAs := None, joinPhrase := Some (js ''x'')\<rparr>"
  have a: "js_at (getInputs 0 three_slots) (- 1) =
     Some \<lparr>artist_el = Some 6, creditedAs_el = Some 7, joinPhrase_el = Some 8\<rparr>"
    by code_simp
  have b: "update (- 1) ?f three_slots =
     Inr (three_slots\<lparr>text_inputs := (text_inputs three_slots)[8 := \<lparr>el_value = js ''x'', el_disabled = False\<rparr>],
                      dispatched := 2\<rparr>)"
    by code_simp
  have c: "js_at (getInputs 0 three_slots) 3 = None" by code_simp
  from update_read_modify_write [of three_slots 3 ?f] c
  have d: "update 3 ?f three_slots = Inr three_slots" by blast
  from a b c d show ?thesis by blast
qed

text \<open>
  C8. Writing a credit into a group of the bubble leaves every field unchanged for which
  the credit's value is falsy (absent, or the empty string).
\<close>

theorem falsy_field_unchanged:
  assumes "g \<in> set (getInputs s u)" "(k, v) \<in> set (entries c)" "\<not> truthy v" "field_el g k = Some i"
  shows "text_inputs (outcome_state (updateInputs (Some g) c u)) ! i = text_inputs u ! i"
proof -
  from assms(1) obtain m where m: "g = group_at (length (text_inputs u)) m"
    using in_getInputs by blast
  from assms(2) have v: "v = (case k of Artist \<Rightarrow> Some (artist c) | CreditedAs \<Rightarrow> creditedAs c | JoinPhrase \<Rightarrow> joinPhrase c)"
    by (auto simp: entries_def)
  show ?thesis
    using nth_updateInputs_group [OF assms(4) [unfolded m] refl, of c] assms(3) unfolding m v by simp
qed

text \<open>
  The theorem at the last slot of the two-slot example: an empty join phrase leaves the
  slot's join phrase as it was.
\<close>

theorem falsy_field_unchanged_witness:
  "\<lparr>artist_el = Some 3, creditedAs_el = Some 4, joinPhrase_el = Some 5\<rparr> \<in> set (getInputs 0 example_ui) \<and>
   (JoinPhrase, Some []) \<in> set (entries \<lparr>artist = js ''Z'', creditedAs = None, joinPhrase = Some []\<rparr>) \<and>
   \<not> truthy (Some []) \<and>
   text_inputs (outcome_state (updateInputs
       (Some \<lparr>artist_el = Some 3, creditedAs_el = Some 4, joinPhrase_el = Some 5\<rparr>)
       \<lparr>artist = js ''Z'', creditedAs = None, joinPhrase = Some []\<rparr> example_ui)) ! 5 =
     \<lparr>el_value = js ''; '', el_disabled = False\<rparr>"
proof -
  let ?g = "\<lparr>artist_el = Some 3, creditedAs_el = Some 4, joinPhrase_el = Some 5\<rparr>"
  let ?c = "\<lparr>artist = js ''Z'', creditedAs = None, joinPhrase = Some []\<rparr>"
  have a: "?g \<in> set (getInputs 0 example_ui)" by code_simp
  have b: "(JoinPhrase, Some []) \<in> set (entries ?c)" by (simp add: entries_def)
  have c: "\<not> truthy (Some [])" by (simp add: truthy_def)
  have d: "field_el ?g JoinPhrase = Some 5" by (simp add: field_el_def)
  have e: "text_inputs example_ui ! 5 = \<lparr>el_value = js ''; '', el_disabled = False\<rparr>"
    by (simp add: example_ui_def)
  from falsy_field_unchanged [OF a b c d] e a b c show ?thesis by simp
qed











text \<open>
  C9. Writing a credit to a slot that does not exist raises. \<open>updateInputs\<close> reads
  \<^verbatim>\<open>inputs[key]\<close> on \<^verbatim>\<open>undefined\<close> as soon as the credit has a truthy field
  (\<open>updateInputs_None\<close>); \<open>update\<close> guards against a missing group, \<open>fill\<close> and
  \<open>append\<close> do not. Here \<open>fill\<close> writes two credits while the page has not rendered the
  second slot: the first credit is written, the second raises a \<^verbatim>\<open>TypeError\<close>.
\<close>

theorem fill_missing_slot_raises:
  "fill (\<lambda>xs. xs)
     [\<lparr>artist = js ''A'', creditedAs = Some (js ''A''), joinPhrase = Some (js '', '')\<rparr>,
      \<lparr>artist = js ''B'', creditedAs = None, joinPhrase = None\<rparr>] one_slot =
   ([TypeError],
    one_slot\<lparr>text_inputs := [\<lparr>el_value = js ''A'', el_disabled = False\<rparr>,
                               \<lparr>el_value = js ''A'', el_disabled = False\<rparr>,
                               \<lparr>el_value = js '', '', el_disabled = False\<rparr>],
              add_clicks := 1, dispatched := 3\<rparr>)"
  by code_simp

text \<open>
  The same failure through \<open>parseArtistCredits\<close>, on the string \<^verbatim>\<open>"A, B"\<close>.
\<close>

lemma parseArtistCredits_raises:
  "fst (parseArtistCredits (\<lambda>xs. xs) one_slot) = [TypeError]"
  by code_simp














text \<open>
  Why the amended statement names the page and the disabled inputs. When the page has
  not rendered the new slot by the time the write of \<open>append\<close> runs, the write goes to the
  last existing slot: the character's own slot is overwritten and no slot is added. A
  disabled join phrase input is skipped by \<open>setInputValue\<close> and keeps its value.
\<close>

lemma appendCharacterCV_slow_page:
  "map el_value (text_inputs (snd (appendCharacterCV (\<lambda>xs. xs) None example_service example_ui))) =
     [js ''Other'', [], js '' & , '', js ''abc-123'', [], js '')'']"
  by code_simp

lemma appendCharacterCV_disabled_input:
  "map el_value (text_inputs (snd (appendCharacterCV slot_host None example_service
       (example_ui\<lparr>text_inputs := (text_inputs example_ui)[5 := \<lparr>el_value = js ''; '', el_disabled = True\<rparr>]\<rparr>)))) =
     [js ''Other'', [], js '' & , '', js ''Chara'', [], js ''; '', js ''abc-123'', [], js '')'']"
  by code_simp

end
